theory Spec2Isabelle
  imports Main "HOL-Library.Word"
begin

section \<open>Shared types\<close>

type_synonym byte = "8 word"
type_synonym bytes = "byte list"
type_synonym uint64 = "64 word"

text \<open>
  The cosmos KVStore behind \<^verbatim>\<open>ctx.KVStore(k.storeKey)\<close>: byte keys, byte values.
  \<^verbatim>\<open>store.Has(key)\<close> is \<open>store key \<noteq> None\<close>, \<^verbatim>\<open>store.Get(key)\<close> reads the value,
  \<^verbatim>\<open>store.Set(key, v)\<close> is \<open>store(key \<mapsto> v)\<close>. \<^verbatim>\<open>Set\<close> panics on a nil value. A marshalled
  value of no bytes is the nil slice: amino returns the bytes of a buffer it never wrote
  to, which is what it does for an empty list.
\<close>

type_synonym KVStore = "bytes \<rightharpoonup> bytes"

text \<open>
  Error results and panics of the Go code as values. \<open>PanicIndexOutOfRange\<close> is the
  runtime panic of indexing a slice outside its length, \<open>PanicNilValue\<close> the panic of
  \<^verbatim>\<open>store.Set\<close> on a nil value.
\<close>

datatype error =
  ErrUnmarshal | ErrMarshal | ErrValidatorNotFound | PanicIndexOutOfRange | PanicNilValue

section \<open>Types of the staking module\<close>

text \<open>
  \<^verbatim>\<open>stakingTypes.StakingRecord\<close> and \<^verbatim>\<open>types.Validator\<close> are declared in packages outside
  the files at hand. The records below carry the fields the code reads and writes
  (\<^verbatim>\<open>ValidatorID\<close>, \<^verbatim>\<open>Nonce\<close>, \<^verbatim>\<open>TxHash\<close>; \<^verbatim>\<open>ID\<close>, \<^verbatim>\<open>Signer\<close>, \<^verbatim>\<open>PubKey\<close>, \<^verbatim>\<open>Power\<close>, \<^verbatim>\<open>EndEpoch\<close>,
  \<^verbatim>\<open>LastUpdated\<close>) and the remaining fields of the data model.
\<close>

datatype RecordKind = Stake | Unstake | SignerChange

record StakingRecord =
  ValidatorID :: uint64
  Nonce :: uint64
  TxHash :: bytes
  Kind :: RecordKind
  Payload :: bytes

type_synonym HeimdallAddress = bytes

record Validator =
  ID :: uint64
  StartEpoch :: uint64
  EndEpoch :: uint64
  Power :: uint64
  PubKey :: bytes
  Signer :: HeimdallAddress
  LastUpdated :: uint64
  Accum :: int

text \<open>
  What the keeper uses and the files at hand do not define: the amino codec \<^verbatim>\<open>k.cdc\<close>
  (\<^verbatim>\<open>MarshalBinaryBare\<close>/\<^verbatim>\<open>UnmarshalBinaryBare\<close> on a slice of staking records,
  \<^verbatim>\<open>types.MarshallValidator\<close>/\<^verbatim>\<open>types.UnmarshallValidator\<close>), with \<open>None\<close> for a returned
  error; the package variable \<^verbatim>\<open>stakingSendingQueueKey\<close>; and \<^verbatim>\<open>ValidatorID.Bytes()\<close>.
  They are parameters of the model.
\<close>

record Keeper =
  stakingSendingQueueKey :: bytes
  MarshalRecords :: "StakingRecord list \<Rightarrow> bytes option"
  UnmarshalRecords :: "bytes \<Rightarrow> StakingRecord list option"
  MarshallValidator :: "Validator \<Rightarrow> bytes option"
  UnmarshallValidator :: "bytes \<Rightarrow> Validator option"
  ValidatorIDBytes :: "uint64 \<Rightarrow> bytes"

section \<open>The staking queue (staking/keep_sync.go)\<close>

definition getStakingQueueKey :: "Keeper \<Rightarrow> byte \<Rightarrow> bytes" where
  "getStakingQueueKey k rootID = stakingSendingQueueKey k @ [rootID]"

text \<open>
  The common prologue of the four queue functions: \<^verbatim>\<open>var records []StakingRecord\<close> stays
  empty when the key is absent, otherwise the stored value is unmarshalled.
  \<open>None\<close> is the unmarshalling error.
\<close>

definition loadRecords :: "Keeper \<Rightarrow> KVStore \<Rightarrow> bytes \<Rightarrow> StakingRecord list option" where
  "loadRecords k store key =
     (case store key of
        None \<Rightarrow> Some []
      | Some bz \<Rightarrow> UnmarshalRecords k bz)"

text \<open>\<^verbatim>\<open>AddStakingRecordToQueue\<close>: on either codec error the function logs and returns,
  leaving the store as it was. The list marshalled here holds at least the new record.\<close>

definition AddStakingRecordToQueue ::
  "Keeper \<Rightarrow> KVStore \<Rightarrow> byte \<Rightarrow> StakingRecord \<Rightarrow> KVStore" where
  "AddStakingRecordToQueue k store rootID stakingRecord =
     (let key = getStakingQueueKey k rootID in
      case loadRecords k store key of
        None \<Rightarrow> store
      | Some records \<Rightarrow>
          (case MarshalRecords k (records @ [stakingRecord]) of
             None \<Rightarrow> store
           | Some out \<Rightarrow> store(key \<mapsto> out)))"

text \<open>
  \<^verbatim>\<open>GetNextStakingRecordFromQueue\<close> returns \<^verbatim>\<open>(nil, nil)\<close> when the key is absent,
  \<^verbatim>\<open>(nil, err)\<close> when the value does not unmarshal, and \<^verbatim>\<open>&records[0]\<close> otherwise; the
  index expression panics on an empty slice. The function calls \<^verbatim>\<open>Has\<close> and \<^verbatim>\<open>Get\<close> only;
  the store it leaves is the first component of the result.
\<close>

definition GetNextStakingRecordFromQueue ::
  "Keeper \<Rightarrow> KVStore \<Rightarrow> byte \<Rightarrow> KVStore \<times> (error + StakingRecord option)" where
  "GetNextStakingRecordFromQueue k store rootID =
     (let key = getStakingQueueKey k rootID in
      case store key of
        None \<Rightarrow> (store, Inr None)
      | Some bz \<Rightarrow>
          (case UnmarshalRecords k bz of
             None \<Rightarrow> (store, Inl ErrUnmarshal)
           | Some records \<Rightarrow>
               (case records of
                  [] \<Rightarrow> (store, Inl PanicIndexOutOfRange)
                | r # _ \<Rightarrow> (store, Inr (Some r)))))"

text \<open>The \<^verbatim>\<open>for _, record := range records\<close> loop of \<^verbatim>\<open>findStakingRecordFromQueue\<close>.\<close>

fun findLoop :: "StakingRecord \<Rightarrow> StakingRecord list \<Rightarrow> bool" where
  "findLoop stakingRecord [] = False"
| "findLoop stakingRecord (record # rest) =
     (if ValidatorID record = ValidatorID stakingRecord \<and>
         Nonce record = Nonce stakingRecord \<and>
         TxHash record = TxHash stakingRecord
      then True
      else findLoop stakingRecord rest)"

definition findStakingRecordFromQueue ::
  "Keeper \<Rightarrow> KVStore \<Rightarrow> byte \<Rightarrow> StakingRecord \<Rightarrow> bool" where
  "findStakingRecordFromQueue k store rootID stakingRecord =
     (let key = getStakingQueueKey k rootID in
      case store key of
        None \<Rightarrow> False
      | Some bz \<Rightarrow>
          (case UnmarshalRecords k bz of
             None \<Rightarrow> False
           | Some records \<Rightarrow> findLoop stakingRecord records))"

text \<open>
  The \<^verbatim>\<open>for index, record := range records\<close> loop of \<^verbatim>\<open>removeStakingRecordFromQueue\<close>:
  at the first record that matches, \<^verbatim>\<open>results := records[index+1:]\<close> and the loop is left.
  \<open>None\<close> when no record matches.
\<close>

fun removeLoop ::
  "uint64 \<Rightarrow> uint64 \<Rightarrow> StakingRecord list \<Rightarrow> nat \<Rightarrow> StakingRecord list \<Rightarrow> StakingRecord list option" where
  "removeLoop validatorID nonce records index [] = None"
| "removeLoop validatorID nonce records index (record # rest) =
     (if ValidatorID record = validatorID \<and> Nonce record = nonce
      then Some (drop (index + 1) records)
      else removeLoop validatorID nonce records (index + 1) rest)"

text \<open>
  \<^verbatim>\<open>removeStakingRecordFromQueue\<close> returns nothing; the second component of the result is
  \<open>None\<close> when it returns and the panic when it does not. \<^verbatim>\<open>store.Set(key, out)\<close> panics
  when \<^verbatim>\<open>out\<close> is nil, and the store stays as it was.
\<close>

definition removeStakingRecordFromQueue ::
  "Keeper \<Rightarrow> KVStore \<Rightarrow> byte \<Rightarrow> uint64 \<Rightarrow> uint64 \<Rightarrow> KVStore \<times> error option" where
  "removeStakingRecordFromQueue k store rootID validatorID nonce =
     (let key = getStakingQueueKey k rootID in
      case store key of
        None \<Rightarrow> (store, None)
      | Some bz \<Rightarrow>
          (case UnmarshalRecords k bz of
             None \<Rightarrow> (store, None)
           | Some records \<Rightarrow>
               (case removeLoop validatorID nonce records 0 records of
                  None \<Rightarrow> (store, None)
                | Some results \<Rightarrow>
                    (case MarshalRecords k results of
                       None \<Rightarrow> (store, None)
                     | Some out \<Rightarrow>
                         if out = [] then (store, Some PanicNilValue)
                         else (store(key \<mapsto> out), None)))))"

section \<open>The validator store (staking keeper)\<close>

definition ValidatorsKey :: bytes where
  "ValidatorsKey = [0x21]"

definition ValidatorMapKey :: bytes where
  "ValidatorMapKey = [0x22]"

definition CurrentValidatorSetKey :: bytes where
  "CurrentValidatorSetKey = [0x23]"

definition GetValidatorKey :: "bytes \<Rightarrow> bytes" where
  "GetValidatorKey address = ValidatorsKey @ address"

definition GetValidatorMapKey :: "bytes \<Rightarrow> bytes" where
  "GetValidatorMapKey address = ValidatorMapKey @ address"

definition SetValidatorIDToSignerAddr ::
  "Keeper \<Rightarrow> KVStore \<Rightarrow> uint64 \<Rightarrow> HeimdallAddress \<Rightarrow> KVStore" where
  "SetValidatorIDToSignerAddr k store valID signerAddr =
     store(GetValidatorMapKey (ValidatorIDBytes k valID) \<mapsto> signerAddr)"

text \<open>\<^verbatim>\<open>AddValidator\<close> returns the marshalling error without writing; otherwise it writes
  the validator under its own signer's key and refreshes the ID-to-signer entry.\<close>

definition AddValidator :: "Keeper \<Rightarrow> KVStore \<Rightarrow> Validator \<Rightarrow> KVStore \<times> error option" where
  "AddValidator k store validator =
     (case MarshallValidator k validator of
        None \<Rightarrow> (store, Some ErrMarshal)
      | Some bz \<Rightarrow>
          (SetValidatorIDToSignerAddr k
             (store(GetValidatorKey (Signer validator) \<mapsto> bz)) (ID validator) (Signer validator),
           None))"

definition GetValidatorInfo :: "Keeper \<Rightarrow> KVStore \<Rightarrow> bytes \<Rightarrow> error + Validator" where
  "GetValidatorInfo k store address =
     (case store (GetValidatorKey address) of
        None \<Rightarrow> Inl ErrValidatorNotFound
      | Some bz \<Rightarrow>
          (case UnmarshallValidator k bz of
             None \<Rightarrow> Inl ErrUnmarshal
           | Some validator \<Rightarrow> Inr validator))"

text \<open>\<^verbatim>\<open>UpdateSigner\<close>: the results of both \<^verbatim>\<open>AddValidator\<close> calls are dropped by the code.\<close>

definition UpdateSigner ::
  "Keeper \<Rightarrow> KVStore \<Rightarrow> HeimdallAddress \<Rightarrow> bytes \<Rightarrow> HeimdallAddress \<Rightarrow> KVStore \<times> error option" where
  "UpdateSigner k store newSigner newPubkey prevSigner =
     (case GetValidatorInfo k store prevSigner of
        Inl err \<Rightarrow> (store, Some err)
      | Inr validator \<Rightarrow>
          (let validatorPower = Power validator;
               validator1 = validator\<lparr>Power := 0\<rparr>;
               store1 = fst (AddValidator k store validator1);
               validator2 = validator1\<lparr>Signer := newSigner, PubKey := newPubkey,
                                       Power := validatorPower\<rparr>;
               store2 = fst (AddValidator k store1 validator2)
           in (store2, None)))"

text \<open>
  go-ethereum's \<^verbatim>\<open>common.BytesToAddress\<close> (a library function): the last 20 bytes of the
  input, left-padded with zeros to 20 bytes. \<^verbatim>\<open>helper.ZeroAddress\<close> is the all-zero address.
\<close>

definition AddressLength :: nat where
  "AddressLength = 20"

definition BytesToAddress :: "bytes \<Rightarrow> HeimdallAddress" where
  "BytesToAddress b =
     (let b' = (if length b > AddressLength then drop (length b - AddressLength) b else b)
      in replicate (AddressLength - length b') 0 @ b')"

definition ZeroAddress :: HeimdallAddress where
  "ZeroAddress = replicate AddressLength 0"

definition GetSignerFromValidatorID :: "Keeper \<Rightarrow> KVStore \<Rightarrow> uint64 \<Rightarrow> HeimdallAddress \<times> bool" where
  "GetSignerFromValidatorID k store valID =
     (case store (GetValidatorMapKey (ValidatorIDBytes k valID)) of
        None \<Rightarrow> (ZeroAddress, False)
      | Some b \<Rightarrow> (BytesToAddress b, True))"

definition GetValidatorFromValID :: "Keeper \<Rightarrow> KVStore \<Rightarrow> uint64 \<Rightarrow> Validator option" where
  "GetValidatorFromValID k store valID =
     (case GetSignerFromValidatorID k store valID of
        (signerAddr, ok) \<Rightarrow>
          if \<not> ok then None
          else (case GetValidatorInfo k store signerAddr of
                  Inl err \<Rightarrow> None
                | Inr validator \<Rightarrow> Some validator))"

section \<open>The root chain listener (bridge/setu/listener/rootchain.go)\<close>

subsection \<open>Library functions: decimal numerals\<close>

text \<open>
  \<^verbatim>\<open>strconv.ParseUint(s, 10, 64)\<close> accepts a non-empty string of decimal digits whose
  value fits 64 bits; \<^verbatim>\<open>big.Int.String\<close> prints the decimal numeral, with a minus sign for a
  negative number; \<^verbatim>\<open>big.Int.Uint64\<close> is the low 64 bits of the absolute value.
\<close>

definition isDigit :: "char \<Rightarrow> bool" where
  "isDigit c = (48 \<le> (of_char c :: nat) \<and> (of_char c :: nat) \<le> 57)"

definition digitVal :: "char \<Rightarrow> nat" where
  "digitVal c = of_char c - 48"

fun parseDigits :: "nat \<Rightarrow> string \<Rightarrow> nat option" where
  "parseDigits acc [] = Some acc"
| "parseDigits acc (c # cs) =
     (if isDigit c then parseDigits (acc * 10 + digitVal c) cs else None)"

definition ParseUint :: "string \<Rightarrow> uint64 option" where
  "ParseUint s =
     (if s = [] then None
      else (case parseDigits 0 s of
              None \<Rightarrow> None
            | Some n \<Rightarrow> if n < 2 ^ 64 then Some (of_nat n) else None))"

definition digitChar :: "nat \<Rightarrow> char" where
  "digitChar d = char_of (48 + d)"

fun decimal :: "nat \<Rightarrow> string" where
  "decimal n = (if n < 10 then [digitChar n] else decimal (n div 10) @ [digitChar (n mod 10)])"

definition bigString :: "int \<Rightarrow> string" where
  "bigString x = (if x < 0 then CHR ''-'' # decimal (nat (- x)) else decimal (nat x))"

definition Uint64 :: "int \<Rightarrow> uint64" where
  "Uint64 x = word_of_int \<bar>x\<bar>"

subsection \<open>Data of the listener\<close>

text \<open>The bridge's leveldb client \<^verbatim>\<open>rl.storageClient\<close>: string keys and values.\<close>

type_synonym Storage = "string \<rightharpoonup> string"

definition lastRootBlockKey :: string where
  "lastRootBlockKey = ''rootchain-last-block''"

record Log =
  Address :: bytes
  Topics :: "bytes list"
  Data :: bytes
  BlockNumber :: uint64

text \<open>
  Modelled from the spec: \<^verbatim>\<open>helper.EventByID\<close> and the contract ABIs are not among the files
  at hand. An ABI is its table of event definitions, signature hash to event name, and
  \<open>EventByID\<close> matches the log's first topic against it (\<open>None\<close> for \<^verbatim>\<open>nil\<close>).
\<close>

type_synonym ABI = "(bytes \<times> string) list"

definition EventByID :: "ABI \<Rightarrow> bytes \<Rightarrow> string option" where
  "EventByID abiObject topic = map_of abiObject topic"

record RootChainListener =
  rootChainType :: string
  abis :: "ABI list"

text \<open>\<^verbatim>\<open>tasks.Signature\<close> as the listener fills it; \<open>ETA\<close> is the delay added to the
  current time.\<close>

record Signature =
  Name :: string
  Args :: "(string \<times> string) list"
  RetryCount :: nat
  RetryTimeout :: nat
  ETA :: nat

text \<open>
  The collaborators' answers during one \<^verbatim>\<open>ProcessHeader\<close> call:
  \<^verbatim>\<open>util.GetChainmanagerParams\<close> (\<open>None\<close> for an error, else \<^verbatim>\<open>MainchainTxConfirmations\<close>),
  whether \<^verbatim>\<open>storageClient.Has\<close>, \<^verbatim>\<open>storageClient.Get\<close> and \<^verbatim>\<open>storageClient.Put\<close> return an
  error, the chain client's \<^verbatim>\<open>FilterLogs\<close> on a block range (\<open>None\<close> for an error),
  \<^verbatim>\<open>util.CalculateTaskDelay\<close> (one answer for the whole call) and \<^verbatim>\<open>json.Marshal\<close> on a log.
  On an error \<^verbatim>\<open>Has\<close> answers \<^verbatim>\<open>false\<close>; the code discards the error and goes on with
  that answer.
\<close>

record Env =
  GetChainmanagerParams :: "uint64 option"
  HasFails :: bool
  GetFails :: bool
  PutFails :: bool
  FilterLogs :: "int \<Rightarrow> int \<Rightarrow> Log list option"
  CalculateTaskDelay :: "bool \<times> nat"
  jsonMarshal :: "Log \<Rightarrow> string"

text \<open>What a call does to the outside, in order: the write of the watermark, the log
  query with its block range, and the tasks handed to the queue.\<close>

datatype effect = Put string string | FilterLogsCall int int | SendTask Signature

datatype outcome = Returned | Panicked

text \<open>The result of one call: the storage afterwards, the effects in order, whether the
  call returned or panicked, and the value left in the header's \<^verbatim>\<open>Number\<close>.\<close>

record Cycle =
  storage :: Storage
  effects :: "effect list"
  outcome :: outcome
  headerNumber :: int

subsection \<open>Classifying and dispatching logs\<close>

definition sendTaskWithDelay ::
  "RootChainListener \<Rightarrow> string \<Rightarrow> string \<Rightarrow> string \<Rightarrow> nat \<Rightarrow> effect" where
  "sendTaskWithDelay rl taskName eventName logBytes delay =
     SendTask \<lparr>Name = taskName,
               Args = [(''string'', eventName), (''string'', logBytes),
                       (''string'', rootChainType rl)],
               RetryCount = 3, RetryTimeout = 3, ETA = delay\<rparr>"

text \<open>The \<^verbatim>\<open>switch selectedEvent.Name\<close> of \<^verbatim>\<open>queryAndBroadcastEvents\<close>.\<close>

definition dispatchEvent :: "RootChainListener \<Rightarrow> Env \<Rightarrow> string \<Rightarrow> string \<Rightarrow> effect list" where
  "dispatchEvent rl env eventName logBytes =
     (let isCurrentValidator = fst (CalculateTaskDelay env);
          delay = snd (CalculateTaskDelay env)
      in if eventName = ''NewHeaderBlock'' then
           (if isCurrentValidator
            then [sendTaskWithDelay rl ''sendCheckpointAckToHeimdall'' eventName logBytes delay]
            else [])
         else if eventName = ''StateSynced'' then
           (if isCurrentValidator
            then [sendTaskWithDelay rl ''sendStateSyncedToHeimdall'' eventName logBytes delay]
            else [])
         else if eventName = ''StakeAck'' then
           (if isCurrentValidator
            then [sendTaskWithDelay rl ''sendStakingAckToHeimdall'' eventName logBytes delay]
            else [])
         else [])"

text \<open>The inner loop \<^verbatim>\<open>for _, abiObject := range rl.abis\<close>: every ABI is consulted, and the
  loop body has no \<^verbatim>\<open>break\<close>.\<close>

fun abiLoop :: "RootChainListener \<Rightarrow> Env \<Rightarrow> Log \<Rightarrow> bytes \<Rightarrow> ABI list \<Rightarrow> effect list" where
  "abiLoop rl env vLog topic [] = []"
| "abiLoop rl env vLog topic (abiObject # rest) =
     (case EventByID abiObject topic of
        None \<Rightarrow> []
      | Some eventName \<Rightarrow> dispatchEvent rl env eventName (jsonMarshal env vLog))
     @ abiLoop rl env vLog topic rest"

text \<open>The outer loop \<^verbatim>\<open>for _, vLog := range logs\<close>; \<^verbatim>\<open>vLog.Topics[0]\<close> panics on a log
  without topics.\<close>

fun logLoop :: "RootChainListener \<Rightarrow> Env \<Rightarrow> Log list \<Rightarrow> effect list \<times> outcome" where
  "logLoop rl env [] = ([], Returned)"
| "logLoop rl env (vLog # rest) =
     (case Topics vLog of
        [] \<Rightarrow> ([], Panicked)
      | topic # _ \<Rightarrow>
          (case logLoop rl env rest of
             (es, oc) \<Rightarrow> (abiLoop rl env vLog topic (abis rl) @ es, oc)))"

definition queryAndBroadcastEvents ::
  "RootChainListener \<Rightarrow> Env \<Rightarrow> int \<Rightarrow> int \<Rightarrow> effect list \<times> outcome" where
  "queryAndBroadcastEvents rl env fromBlock toBlock =
     (case FilterLogs env fromBlock toBlock of
        None \<Rightarrow> ([FilterLogsCall fromBlock toBlock], Returned)
      | Some logs \<Rightarrow>
          (case logLoop rl env logs of
             (es, oc) \<Rightarrow> (FilterLogsCall fromBlock toBlock # es, oc)))"

subsection \<open>ProcessHeader\<close>

text \<open>
  The \<^verbatim>\<open>*big.Int\<close> objects of \<^verbatim>\<open>ProcessHeader\<close>, one per allocation site: the header's
  \<^verbatim>\<open>Number\<close>, the \<^verbatim>\<open>big.NewInt(0).SetUint64(requiredConfirmations)\<close> of line 110 and the
  \<^verbatim>\<open>big.NewInt(0).SetUint64(result + 1)\<close> of line 135. The variables \<^verbatim>\<open>latestNumber\<close>,
  \<^verbatim>\<open>fromBlock\<close> and \<^verbatim>\<open>toBlock\<close> hold references. \<^verbatim>\<open>latestNumber := newHeader.Number\<close> copies
  the reference, and \<^verbatim>\<open>latestNumber.Sub(latestNumber, confirmationBlocks)\<close> writes the
  difference into its receiver, the header's own number.
\<close>

datatype bigRef = HeaderNumber | ConfirmationBlocks | FromBlockNew

type_synonym bigHeap = "bigRef \<Rightarrow> int"

text \<open>Lines 122 to 139: \<open>None\<close> is a \<^verbatim>\<open>return\<close>; otherwise the heap and the reference
  held by \<^verbatim>\<open>fromBlock\<close>.\<close>

definition lastBlockCheck ::
  "Env \<Rightarrow> Storage \<Rightarrow> bigHeap \<Rightarrow> bigRef \<Rightarrow> (bigHeap \<times> bigRef) option" where
  "lastBlockCheck env db m fromBlock =
     (let hasLastBlock = (\<not> HasFails env \<and> db lastRootBlockKey \<noteq> None) in
      if hasLastBlock then
        (case (if GetFails env then None else db lastRootBlockKey) of
           None \<Rightarrow> None
         | Some lastBlockBytes \<Rightarrow>
             (case ParseUint lastBlockBytes of
                None \<Rightarrow> Some (m, fromBlock)
              | Some result \<Rightarrow>
                  if result \<ge> Uint64 (m HeaderNumber) then None
                  else if result + 1 < Uint64 (m fromBlock)
                  then Some (m(FromBlockNew := uint (result + 1)), FromBlockNew)
                  else Some (m, fromBlock)))
      else Some (m, fromBlock))"

definition skipped :: "Storage \<Rightarrow> bigHeap \<Rightarrow> Cycle" where
  "skipped db m = \<lparr>storage = db, effects = [], outcome = Returned, headerNumber = m HeaderNumber\<rparr>"

definition ProcessHeader :: "RootChainListener \<Rightarrow> Env \<Rightarrow> Storage \<Rightarrow> int \<Rightarrow> Cycle" where
  "ProcessHeader rl env db number =
     (let m0 = (\<lambda>_. 0)(HeaderNumber := number) in
      case GetChainmanagerParams env of
        None \<Rightarrow> skipped db m0
      | Some requiredConfirmations \<Rightarrow>
          (let latestNumber = HeaderNumber;
               m1 = m0(ConfirmationBlocks := uint requiredConfirmations)
           in if m1 latestNumber \<le> m1 ConfirmationBlocks then skipped db m1
              else
                (let m2 = m1(latestNumber := m1 latestNumber - m1 ConfirmationBlocks);
                     fromBlock0 = latestNumber
                 in case lastBlockCheck env db m2 fromBlock0 of
                      None \<Rightarrow> skipped db m2
                    | Some (m3, fromBlock1) \<Rightarrow>
                        (let toBlock = latestNumber;
                             fromBlock = (if m3 toBlock < m3 fromBlock1 then toBlock else fromBlock1);
                             val = bigString (m3 toBlock);
                             db' = (if PutFails env then db else db(lastRootBlockKey \<mapsto> val))
                         in case queryAndBroadcastEvents rl env (m3 fromBlock) (m3 toBlock) of
                              (es, oc) \<Rightarrow>
                                \<lparr>storage = db', effects = Put lastRootBlockKey val # es,
                                 outcome = oc, headerNumber = m3 HeaderNumber\<rparr>))))"


section \<open>Concrete inputs\<close>

text \<open>
  A small codec standing in for amino at concrete inputs: a staking record of one-byte
  fields is three bytes, a validator of one-byte fields is three bytes followed by its
  20-byte signer. Values that do not fit are refused by the marshaller.
\<close>

definition fitsByte :: "StakingRecord \<Rightarrow> bool" where
  "fitsByte r = (ValidatorID r < 256 \<and> Nonce r < 256 \<and> length (TxHash r) = 1 \<and>
                 Kind r = Stake \<and> Payload r = [])"

definition encodeRecord :: "StakingRecord \<Rightarrow> bytes" where
  "encodeRecord r = [ucast (ValidatorID r), ucast (Nonce r), hd (TxHash r)]"

definition demoMarshalRecords :: "StakingRecord list \<Rightarrow> bytes option" where
  "demoMarshalRecords rs =
     (if list_all fitsByte rs then Some (concat (map encodeRecord rs)) else None)"

fun demoUnmarshalRecords :: "bytes \<Rightarrow> StakingRecord list option" where
  "demoUnmarshalRecords [] = Some []"
| "demoUnmarshalRecords (v # n # h # rest) =
     map_option
       ((#) \<lparr>ValidatorID = ucast v, Nonce = ucast n, TxHash = [h], Kind = Stake, Payload = []\<rparr>)
       (demoUnmarshalRecords rest)"
| "demoUnmarshalRecords _ = None"

definition demoMarshallValidator :: "Validator \<Rightarrow> bytes option" where
  "demoMarshallValidator v =
     (if ID v < 256 \<and> Power v < 256 \<and> length (PubKey v) = 1 \<and> length (Signer v) = 20 \<and>
         StartEpoch v = 0 \<and> EndEpoch v = 0 \<and> LastUpdated v = 0 \<and> Accum v = 0
      then Some ([ucast (ID v), ucast (Power v), hd (PubKey v)] @ Signer v)
      else None)"

definition demoUnmarshallValidator :: "bytes \<Rightarrow> Validator option" where
  "demoUnmarshallValidator bz =
     (case bz of
        i # p # pk # signer \<Rightarrow>
          if length signer = 20
          then Some \<lparr>ID = ucast i, StartEpoch = 0, EndEpoch = 0, Power = ucast p, PubKey = [pk],
                      Signer = signer, LastUpdated = 0, Accum = 0\<rparr>
          else None
      | _ \<Rightarrow> None)"

definition demoKeeper :: Keeper where
  "demoKeeper =
     \<lparr>stakingSendingQueueKey = [0x41],
      MarshalRecords = demoMarshalRecords,
      UnmarshalRecords = demoUnmarshalRecords,
      MarshallValidator = demoMarshallValidator,
      UnmarshallValidator = demoUnmarshallValidator,
      ValidatorIDBytes = (\<lambda>valID. [ucast valID])\<rparr>"

definition emptyStore :: KVStore where
  "emptyStore = Map.empty"

definition recordA :: StakingRecord where
  "recordA = \<lparr>ValidatorID = 1, Nonce = 1, TxHash = [0xA], Kind = Stake, Payload = []\<rparr>"

definition recordB :: StakingRecord where
  "recordB = \<lparr>ValidatorID = 2, Nonce = 2, TxHash = [0xB], Kind = Stake, Payload = []\<rparr>"

definition recordC :: StakingRecord where
  "recordC = \<lparr>ValidatorID = 3, Nonce = 3, TxHash = [0xC], Kind = Stake, Payload = []\<rparr>"

text \<open>A store whose value for root 1 is not the encoding of a list of records.\<close>

definition corruptQueue :: KVStore where
  "corruptQueue = [[0x41, 1] \<mapsto> [0x99]]"

text \<open>The queue of root 1 after enqueuing A, B and C in this order.\<close>

definition queueABC :: KVStore where
  "queueABC =
     AddStakingRecordToQueue demoKeeper
       (AddStakingRecordToQueue demoKeeper
          (AddStakingRecordToQueue demoKeeper emptyStore 1 recordA) 1 recordB) 1 recordC"

definition signerOld :: HeimdallAddress where
  "signerOld = [0, 0, 0, 0, 0, 0, 0, 0, 0, 0, 0, 0, 0, 0, 0, 0, 0, 0, 0, 1]"

definition signerNew :: HeimdallAddress where
  "signerNew = [0, 0, 0, 0, 0, 0, 0, 0, 0, 0, 0, 0, 0, 0, 0, 0, 0, 0, 0, 2]"

definition demoValidator :: Validator where
  "demoValidator =
     \<lparr>ID = 7, StartEpoch = 0, EndEpoch = 0, Power = 10, PubKey = [5], Signer = signerOld,
      LastUpdated = 0, Accum = 0\<rparr>"

definition validatorStore :: KVStore where
  "validatorStore = fst (AddValidator demoKeeper emptyStore demoValidator)"

text \<open>
  A listener with one event per ABI and one whose two ABIs both declare the event
  \<^verbatim>\<open>StateSynced\<close>, with the same signature;
  a chain client that answers every query with one \<^verbatim>\<open>StateSynced\<close> log, and one whose
  \<^verbatim>\<open>FilterLogs\<close> fails; three confirmations are required and the node is a current
  validator with no delay.
\<close>

definition demoLog :: Log where
  "demoLog = \<lparr>Address = [1], Topics = [[2]], Data = [], BlockNumber = 102\<rparr>"

definition demoListener :: RootChainListener where
  "demoListener =
     \<lparr>rootChainType = ''eth'',
      abis = [[([1], ''NewHeaderBlock'')], [([2], ''StateSynced'')], [([3], ''StakeAck'')]]\<rparr>"


definition demoEnv :: Env where
  "demoEnv =
     \<lparr>GetChainmanagerParams = Some 3, HasFails = False, GetFails = False, PutFails = False,
      FilterLogs = (\<lambda>fromBlock toBlock. Some [demoLog]),
      CalculateTaskDelay = (True, 0),
      jsonMarshal = (\<lambda>vLog. ''{}'')\<rparr>"

definition failingEnv :: Env where
  "failingEnv = demoEnv\<lparr>FilterLogs := (\<lambda>fromBlock toBlock. None)\<rparr>"


definition putFailingEnv :: Env where
  "putFailingEnv = demoEnv\<lparr>PutFails := True\<rparr>"

definition emptyStorage :: Storage where
  "emptyStorage = Map.empty"

definition storedAt100 :: Storage where
  "storedAt100 = [lastRootBlockKey \<mapsto> ''100'']"


text \<open>Two records carry the same identity when validator ID, nonce and transaction hash
  agree, the comparison \<^verbatim>\<open>findStakingRecordFromQueue\<close> makes.\<close>

definition sameTriple :: "StakingRecord \<Rightarrow> StakingRecord \<Rightarrow> bool" where
  "sameTriple r x = (ValidatorID x = ValidatorID r \<and> Nonce x = Nonce r \<and> TxHash x = TxHash r)"



section \<open>Decimal numerals: printing and parsing agree\<close>

declare decimal.simps [simp del]

lemma parseDigits_snoc:
  "parseDigits acc (xs @ [c]) =
     (case parseDigits acc xs of
        None \<Rightarrow> None
      | Some m \<Rightarrow> if isDigit c then Some (m * 10 + digitVal c) else None)"
  by (induction xs arbitrary: acc) auto

lemma digitChar_ok: "d < 10 \<Longrightarrow> isDigit (digitChar d) \<and> digitVal (digitChar d) = d"
  by (simp add: isDigit_def digitVal_def digitChar_def)

lemma parseDigits_decimal: "parseDigits 0 (decimal n) = Some n"
proof (induction n rule: decimal.induct)
  case (1 n)
  show ?case
  proof (cases "n < 10")
    case True
    then show ?thesis
      using digitChar_ok [of n] by (subst decimal.simps) simp
  next
    case False
    have d: "n mod 10 < 10" by simp
    from False 1 have ih: "parseDigits 0 (decimal (n div 10)) = Some (n div 10)" by simp
    show ?thesis
      using False ih digitChar_ok [OF d]
      by (subst decimal.simps) (simp add: parseDigits_snoc)
  qed
qed

lemma decimal_nonempty: "decimal n \<noteq> []"
  by (subst decimal.simps) simp

lemma ParseUint_bigString:
  "0 \<le> x \<Longrightarrow> x < 2 ^ 64 \<Longrightarrow> ParseUint (bigString x) = Some (word_of_int x)"
proof -
  assume a: "0 \<le> x" "x < 2 ^ 64"
  then have "nat x < 2 ^ 64" by (simp add: nat_less_iff)
  moreover have "(of_nat (nat x) :: uint64) = word_of_int x" using a by simp
  ultimately show ?thesis
    using a by (simp add: ParseUint_def bigString_def decimal_nonempty parseDigits_decimal)
qed

lemma ParseUint_100: "ParseUint ''100'' = Some 100"
  by (simp add: ParseUint_def isDigit_def digitVal_def)



lemma bigString_102: "bigString 102 = ''102''"
  by code_simp





section \<open>The listener: what one call does\<close>




lemma query_hd:
  "\<exists>es. fst (queryAndBroadcastEvents rl env f t) = FilterLogsCall f t # es \<and>
        (FilterLogs env f t = None \<longrightarrow> es = [])"
  by (auto simp: queryAndBroadcastEvents_def split: option.splits prod.splits)

text \<open>
  A call either leaves no trace, or it got the confirmation depth \<open>c\<close> below the header
  number, passed the check against the stored block with the header's number already
  lowered to \<open>number - c\<close>, wrote that value and queried up to it.
\<close>

lemma ProcessHeader_shape:
  "(storage (ProcessHeader rl env db number) = db \<and> effects (ProcessHeader rl env db number) = []
      \<and> outcome (ProcessHeader rl env db number) = Returned)
   \<or> (\<exists>c m2 m f. GetChainmanagerParams env = Some c \<and> uint c < number \<and>
         m2 HeaderNumber = number - uint c \<and>
         lastBlockCheck env db m2 HeaderNumber = Some (m, f) \<and>
         storage (ProcessHeader rl env db number) =
           (if PutFails env then db else db(lastRootBlockKey \<mapsto> bigString (number - uint c))) \<and>
         effects (ProcessHeader rl env db number) =
           Put lastRootBlockKey (bigString (number - uint c)) #
           fst (queryAndBroadcastEvents rl env
                  (if number - uint c < m f then number - uint c else m f) (number - uint c)))"
proof (cases "GetChainmanagerParams env")
  case None
  then show ?thesis by (simp add: ProcessHeader_def skipped_def)
next
  case (Some c)
  show ?thesis
  proof (cases "number \<le> uint c")
    case True
    with Some show ?thesis by (simp add: ProcessHeader_def skipped_def Let_def)
  next
    case False
    define m2 where "m2 = ((\<lambda>_. 0)(HeaderNumber := number, ConfirmationBlocks := uint c))
                 (HeaderNumber := number - uint c)"
    have m2: "m2 HeaderNumber = number - uint c" by (simp add: m2_def)
    show ?thesis
    proof (cases "lastBlockCheck env db m2 HeaderNumber")
      case None
      with Some False show ?thesis
        by (simp add: ProcessHeader_def skipped_def Let_def m2_def)
    next
      case (Some mf)
      obtain m f where mf: "mf = (m, f)" by (cases mf)
      have hd: "m HeaderNumber = number - uint c"
        using Some mf m2
        by (auto simp: lastBlockCheck_def Let_def split: if_splits option.splits)
      have "storage (ProcessHeader rl env db number) =
           (if PutFails env then db else db(lastRootBlockKey \<mapsto> bigString (number - uint c)))"
        using \<open>GetChainmanagerParams env = Some c\<close> False Some mf hd
        by (auto simp: ProcessHeader_def Let_def m2_def split: prod.splits)
      moreover have "effects (ProcessHeader rl env db number) =
           Put lastRootBlockKey (bigString (number - uint c)) #
           fst (queryAndBroadcastEvents rl env
                  (if number - uint c < m f then number - uint c else m f) (number - uint c))"
        using \<open>GetChainmanagerParams env = Some c\<close> False Some mf hd
        by (auto simp: ProcessHeader_def Let_def m2_def split: prod.splits)
      ultimately show ?thesis
        using \<open>GetChainmanagerParams env = Some c\<close> False Some mf m2
        by (intro disjI2 exI [of _ c] exI [of _ m2] exI [of _ m] exI [of _ f]) auto
    qed
  qed
qed






section \<open>The listener: scan range and skips\<close>

text \<open>
  Claim C6. When the observed head is not above the required confirmation depth,
  \<^verbatim>\<open>ProcessHeader\<close> returns at once: no log query, no task, and the stored watermark is
  not written.
\<close>

theorem ProcessHeader_insufficient_depth:
  assumes "GetChainmanagerParams env = Some requiredConfirmations"
    and "number \<le> uint requiredConfirmations"
  shows "storage (ProcessHeader rl env db number) = db \<and>
         effects (ProcessHeader rl env db number) = [] \<and>
         outcome (ProcessHeader rl env db number) = Returned"
  using assms by (simp add: ProcessHeader_def skipped_def Let_def)

text \<open>Head 3 with three confirmations required, on a storage holding block 100.\<close>

theorem ProcessHeader_insufficient_depth_witness:
  "GetChainmanagerParams demoEnv = Some 3 \<and> (3 :: int) \<le> uint (3 :: uint64) \<and>
   storage (ProcessHeader demoListener demoEnv storedAt100 3) = storedAt100 \<and>
   effects (ProcessHeader demoListener demoEnv storedAt100 3) = [] \<and>
   outcome (ProcessHeader demoListener demoEnv storedAt100 3) = Returned"
proof -
  have h1: "GetChainmanagerParams demoEnv = Some 3" by (simp add: demoEnv_def)
  have h2: "(3 :: int) \<le> uint (3 :: uint64)" by simp
  from ProcessHeader_insufficient_depth [OF h1 h2, of demoListener storedAt100] h1 h2
  show ?thesis by simp
qed







section \<open>The listener: the watermark is written before the query\<close>

text \<open>
  Claim C7, as the code has it. On every call of \<^verbatim>\<open>ProcessHeader\<close> that is not skipped,
  the write of \<open>toBlock\<close> under the watermark key is issued before the log range is
  queried: the write comes first among the effects, the query second, and when the query
  fails nothing follows. When the write succeeds the storage holds \<open>toBlock\<close> from then
  on, also after a failed query; when the write returns an error the range is still
  queried and the storage is left as it was.
\<close>

theorem ProcessHeader_put_before_scan:
  assumes "GetChainmanagerParams env = Some requiredConfirmations"
    and "effects (ProcessHeader rl env db number) \<noteq> []"
  shows "\<exists>fromBlock tasks.
           effects (ProcessHeader rl env db number) =
             Put lastRootBlockKey (bigString (number - uint requiredConfirmations)) #
             FilterLogsCall fromBlock (number - uint requiredConfirmations) # tasks \<and>
           (FilterLogs env fromBlock (number - uint requiredConfirmations) = None \<longrightarrow> tasks = []) \<and>
           (\<not> PutFails env \<longrightarrow>
              storage (ProcessHeader rl env db number) =
                db(lastRootBlockKey \<mapsto> bigString (number - uint requiredConfirmations))) \<and>
           (PutFails env \<longrightarrow> storage (ProcessHeader rl env db number) = db) \<and>
           (number < 2 ^ 64 \<longrightarrow>
              ParseUint (bigString (number - uint requiredConfirmations)) =
                Some (word_of_int (number - uint requiredConfirmations)))"
proof -
  let ?t = "number - uint requiredConfirmations"
  from assms ProcessHeader_shape [of rl env db number]
  obtain m :: bigHeap and f :: bigRef where
     c: "uint requiredConfirmations < number"
    and s: "storage (ProcessHeader rl env db number) =
           (if PutFails env then db else db(lastRootBlockKey \<mapsto> bigString ?t))"
    and e: "effects (ProcessHeader rl env db number) =
           Put lastRootBlockKey (bigString ?t) #
           fst (queryAndBroadcastEvents rl env (if ?t < m f then ?t else m f) ?t)"
    by auto
  define fb where "fb = (if ?t < m f then ?t else m f)"
  from query_hd [of rl env fb ?t]
  obtain es where es: "fst (queryAndBroadcastEvents rl env fb ?t) = FilterLogsCall fb ?t # es"
    "FilterLogs env fb ?t = None \<longrightarrow> es = []"
    by (elim exE conjE)
  have eff: "effects (ProcessHeader rl env db number) =
          Put lastRootBlockKey (bigString ?t) # FilterLogsCall fb ?t # es"
    using e es(1) by (simp add: fb_def)
  have p: "number < 2 ^ 64 \<longrightarrow> ParseUint (bigString ?t) = Some (word_of_int ?t)"
  proof
    assume "number < 2 ^ 64"
    then have "0 \<le> ?t" "?t < 2 ^ 64"
      using c uint_ge_0 [of requiredConfirmations] by linarith+
    then show "ParseUint (bigString ?t) = Some (word_of_int ?t)" by (rule ParseUint_bigString)
  qed
  from eff es(2) s p show ?thesis by auto
qed

text \<open>Head 105, three confirmations, nothing stored, and a chain client whose
  \<^verbatim>\<open>FilterLogs\<close> fails: the storage holds 102 afterwards.\<close>

theorem ProcessHeader_put_before_scan_witness:
  "GetChainmanagerParams failingEnv = Some 3 \<and>
   effects (ProcessHeader demoListener failingEnv emptyStorage 105) \<noteq> [] \<and>
   FilterLogs failingEnv 102 102 = None \<and>
   storage (ProcessHeader demoListener failingEnv emptyStorage 105) lastRootBlockKey = Some ''102'' \<and>
   (\<exists>fromBlock tasks.
      effects (ProcessHeader demoListener failingEnv emptyStorage 105) =
        Put lastRootBlockKey (bigString (105 - uint (3 :: uint64))) #
        FilterLogsCall fromBlock (105 - uint (3 :: uint64)) # tasks \<and>
      (FilterLogs failingEnv fromBlock (105 - uint (3 :: uint64)) = None \<longrightarrow> tasks = []) \<and>
      (\<not> PutFails failingEnv \<longrightarrow>
         storage (ProcessHeader demoListener failingEnv emptyStorage 105) =
           emptyStorage(lastRootBlockKey \<mapsto> bigString (105 - uint (3 :: uint64)))) \<and>
      (PutFails failingEnv \<longrightarrow>
         storage (ProcessHeader demoListener failingEnv emptyStorage 105) = emptyStorage) \<and>
      ((105 :: int) < 2 ^ 64 \<longrightarrow>
         ParseUint (bigString (105 - uint (3 :: uint64))) =
           Some (word_of_int (105 - uint (3 :: uint64)))))"
proof -
  have ev: "ProcessHeader demoListener failingEnv emptyStorage 105 =
      \<lparr>storage = [lastRootBlockKey \<mapsto> ''102''],
       effects = [Put lastRootBlockKey ''102'', FilterLogsCall 102 102],
       outcome = Returned, headerNumber = 102\<rparr>"
    by (simp add: ProcessHeader_def lastBlockCheck_def Let_def demoEnv_def failingEnv_def
        emptyStorage_def bigString_102 Uint64_def queryAndBroadcastEvents_def)
  have h1: "GetChainmanagerParams failingEnv = Some 3" by (simp add: failingEnv_def demoEnv_def)
  have h2: "effects (ProcessHeader demoListener failingEnv emptyStorage 105) \<noteq> []"
    by (simp add: ev)
  have h3: "FilterLogs failingEnv 102 102 = None" by (simp add: failingEnv_def)
  have h4: "storage (ProcessHeader demoListener failingEnv emptyStorage 105) lastRootBlockKey = Some ''102''"
    by (simp add: ev)
  from ProcessHeader_put_before_scan [OF h1 h2] h1 h2 h3 h4 show ?thesis by blast
qed

text \<open>
  The claim as stated fails when \<^verbatim>\<open>Put\<close> returns an error: block 100 is stored, head 105
  is observed with three confirmations, the call is not skipped and queries 101 to 102,
  and the storage still holds 100.
\<close>

theorem put_before_scan_counterexample:
  "PutFails putFailingEnv \<and>
   effects (ProcessHeader demoListener putFailingEnv storedAt100 105) =
     [Put lastRootBlockKey ''102'', FilterLogsCall 101 102,
      sendTaskWithDelay demoListener ''sendStateSyncedToHeimdall'' ''StateSynced'' ''{}'' 0] \<and>
   storage (ProcessHeader demoListener putFailingEnv storedAt100 105) lastRootBlockKey = Some ''100''"
  by (simp add: ProcessHeader_def lastBlockCheck_def Let_def demoEnv_def putFailingEnv_def
      storedAt100_def ParseUint_100 bigString_102 Uint64_def queryAndBroadcastEvents_def
      demoLog_def demoListener_def EventByID_def dispatchEvent_def)

section \<open>The listener: the watermark across calls\<close>







section \<open>The listener: classifying a log\<close>




section \<open>The staking queue\<close>

lemma findLoop_filter: "findLoop r xs \<longleftrightarrow> filter (sameTriple r) xs \<noteq> []"
  by (induction xs) (auto simp: sameTriple_def)

text \<open>What the removal loop returns at its first match: the records after the match.
  The records before it are not part of the result.\<close>

lemma removeLoop_first_match:
  "removeLoop v n (pre @ xs) (length pre) xs = Some res \<Longrightarrow>
     \<exists>mid x. xs = mid @ x # res \<and> ValidatorID x = v \<and> Nonce x = n \<and>
             (\<forall>y \<in> set mid. \<not> (ValidatorID y = v \<and> Nonce y = n))"
proof (induction xs arbitrary: pre)
  case Nil
  then show ?case by simp
next
  case (Cons a xs)
  show ?case
  proof (cases "ValidatorID a = v \<and> Nonce a = n")
    case True
    with Cons.prems have "res = xs" by auto
    with True show ?thesis by (intro exI [of _ "[]"] exI [of _ a]) simp
  next
    case False
    with Cons.prems have "removeLoop v n ((pre @ [a]) @ xs) (length (pre @ [a])) xs = Some res"
      by simp
    from Cons.IH [OF this] obtain mid x where
      "xs = mid @ x # res" "ValidatorID x = v" "Nonce x = n"
      "\<forall>y \<in> set mid. \<not> (ValidatorID y = v \<and> Nonce y = n)" by blast
    with False show ?thesis by (intro exI [of _ "a # mid"] exI [of _ x]) auto
  qed
qed

lemma queueABC_eq: "queueABC = [[0x41, 1] \<mapsto> [1, 1, 0xA, 2, 2, 0xB, 3, 3, 0xC]]"
  by (simp add: queueABC_def AddStakingRecordToQueue_def loadRecords_def getStakingQueueKey_def
      demoKeeper_def emptyStore_def demoMarshalRecords_def fitsByte_def encodeRecord_def
      recordA_def recordB_def recordC_def)

text \<open>
  Claim C1, on the queue [A, B, C] of root 1: removing B (validator 2, nonce 2) should
  leave [A, C]. The code stores \<^verbatim>\<open>records[index+1:]\<close>, which is [C]: A is dropped with B.
\<close>

theorem remove_middle_drops_head:
  "loadRecords demoKeeper queueABC (getStakingQueueKey demoKeeper 1)
     = Some [recordA, recordB, recordC] \<and>
   loadRecords demoKeeper (fst (removeStakingRecordFromQueue demoKeeper queueABC 1 2 2))
     (getStakingQueueKey demoKeeper 1) = Some [recordC] \<and>
   snd (removeStakingRecordFromQueue demoKeeper queueABC 1 2 2) = None"
  by (simp add: queueABC_eq removeStakingRecordFromQueue_def loadRecords_def
      getStakingQueueKey_def demoKeeper_def demoMarshalRecords_def fitsByte_def encodeRecord_def
      recordA_def recordB_def recordC_def)

text \<open>
  Removing the only record of a queue: the tail after the match is empty, its marshalled
  value is nil, \<^verbatim>\<open>store.Set\<close> panics, and the queue still holds the record, which the next
  peek returns. The removal never leaves an empty list under the key.
\<close>

lemma remove_last_record_panics:
  "removeStakingRecordFromQueue demoKeeper
     (AddStakingRecordToQueue demoKeeper emptyStore 1 recordA) 1 1 1
   = (AddStakingRecordToQueue demoKeeper emptyStore 1 recordA, Some PanicNilValue) \<and>
   GetNextStakingRecordFromQueue demoKeeper
     (fst (removeStakingRecordFromQueue demoKeeper
        (AddStakingRecordToQueue demoKeeper emptyStore 1 recordA) 1 1 1)) 1
   = (AddStakingRecordToQueue demoKeeper emptyStore 1 recordA, Inr (Some recordA))"
  by (simp add: GetNextStakingRecordFromQueue_def removeStakingRecordFromQueue_def
      AddStakingRecordToQueue_def loadRecords_def getStakingQueueKey_def demoKeeper_def
      emptyStore_def demoMarshalRecords_def fitsByte_def encodeRecord_def recordA_def)

lemma remove_never_stores_empty:
  "fst (removeStakingRecordFromQueue k store rootID validatorID nonce) key = Some []
     \<Longrightarrow> store key = Some []"
  by (auto simp: removeStakingRecordFromQueue_def Let_def split: option.splits if_splits)

text \<open>
  Claim C10, as the code has it. \<^verbatim>\<open>GetNextStakingRecordFromQueue\<close> only reads: in every
  store state it leaves the store as it was. It returns none when no queue is stored for
  the root, the head record when the stored value unmarshals to a non-empty list, and
  the unmarshalling error when the stored value does not unmarshal.
\<close>

theorem GetNext_reads_head:
  "fst (GetNextStakingRecordFromQueue k store rootID) = store \<and>
   (store (getStakingQueueKey k rootID) = None \<longrightarrow>
      snd (GetNextStakingRecordFromQueue k store rootID) = Inr None) \<and>
   (\<forall>bz. store (getStakingQueueKey k rootID) = Some bz \<and> UnmarshalRecords k bz = None \<longrightarrow>
      snd (GetNextStakingRecordFromQueue k store rootID) = Inl ErrUnmarshal) \<and>
   (\<forall>bz r rest. store (getStakingQueueKey k rootID) = Some bz \<and>
                 UnmarshalRecords k bz = Some (r # rest) \<longrightarrow>
      snd (GetNextStakingRecordFromQueue k store rootID) = Inr (Some r))"
  by (auto simp: GetNextStakingRecordFromQueue_def Let_def split: option.splits list.splits)

text \<open>The queue [A, B, C] of root 1 gives A and stays as it is; the empty store gives
  none.\<close>

theorem GetNext_reads_head_witness:
  "queueABC (getStakingQueueKey demoKeeper 1) = Some [1, 1, 0xA, 2, 2, 0xB, 3, 3, 0xC] \<and>
   UnmarshalRecords demoKeeper [1, 1, 0xA, 2, 2, 0xB, 3, 3, 0xC]
     = Some (recordA # [recordB, recordC]) \<and>
   GetNextStakingRecordFromQueue demoKeeper queueABC 1 = (queueABC, Inr (Some recordA)) \<and>
   emptyStore (getStakingQueueKey demoKeeper 1) = None \<and>
   GetNextStakingRecordFromQueue demoKeeper emptyStore 1 = (emptyStore, Inr None)"
proof -
  have h1: "queueABC (getStakingQueueKey demoKeeper 1) = Some [1, 1, 0xA, 2, 2, 0xB, 3, 3, 0xC]"
    by (simp add: queueABC_eq getStakingQueueKey_def demoKeeper_def)
  have h2: "UnmarshalRecords demoKeeper [1, 1, 0xA, 2, 2, 0xB, 3, 3, 0xC]
              = Some (recordA # [recordB, recordC])"
    by (simp add: demoKeeper_def recordA_def recordB_def recordC_def)
  have h3: "emptyStore (getStakingQueueKey demoKeeper 1) = None"
    by (simp add: emptyStore_def)
  from GetNext_reads_head [of demoKeeper queueABC 1] h1 h2
  have a: "GetNextStakingRecordFromQueue demoKeeper queueABC 1 = (queueABC, Inr (Some recordA))"
    by (metis prod.collapse)
  from GetNext_reads_head [of demoKeeper emptyStore 1] h3
  have b: "GetNextStakingRecordFromQueue demoKeeper emptyStore 1 = (emptyStore, Inr None)"
    by (metis prod.collapse)
  from h1 h2 h3 a b show ?thesis by blast
qed

text \<open>
  The claim as stated fails on a store whose value for the root does not unmarshal:
  the call returns the error.
\<close>

theorem GetNext_fails_counterexample:
  "corruptQueue (getStakingQueueKey demoKeeper 1) = Some [0x99] \<and>
   UnmarshalRecords demoKeeper [0x99] = None \<and>
   GetNextStakingRecordFromQueue demoKeeper corruptQueue 1 = (corruptQueue, Inl ErrUnmarshal)"
  by (simp add: GetNextStakingRecordFromQueue_def corruptQueue_def getStakingQueueKey_def
      demoKeeper_def)

text \<open>
  Claim C2, as the code has it. \<^verbatim>\<open>AddStakingRecordToQueue\<close> makes no duplicate check: it
  always appends the record to the list persisted for the root. The check is the
  separate \<^verbatim>\<open>findStakingRecordFromQueue\<close>: it answers true once the record is enqueued,
  and a record enqueued while it answered false is stored exactly once, while one
  enqueued while it answered true is stored at least twice.
\<close>

theorem enqueue_appends:
  assumes "loadRecords k store (getStakingQueueKey k rootID) = Some records"
    and "MarshalRecords k (records @ [r]) = Some out"
    and "UnmarshalRecords k out = Some (records @ [r])"
  shows "loadRecords k (AddStakingRecordToQueue k store rootID r) (getStakingQueueKey k rootID)
           = Some (records @ [r]) \<and>
         findStakingRecordFromQueue k (AddStakingRecordToQueue k store rootID r) rootID r \<and>
         (if findStakingRecordFromQueue k store rootID r
          then length (filter (sameTriple r) (records @ [r])) \<ge> 2
          else length (filter (sameTriple r) (records @ [r])) = 1)"
proof -
  have st: "AddStakingRecordToQueue k store rootID r = store(getStakingQueueKey k rootID \<mapsto> out)"
    using assms by (simp add: AddStakingRecordToQueue_def)
  have ld: "loadRecords k (AddStakingRecordToQueue k store rootID r) (getStakingQueueKey k rootID)
           = Some (records @ [r])"
    using assms(3) by (simp add: st loadRecords_def)
  have fa: "findStakingRecordFromQueue k (AddStakingRecordToQueue k store rootID r) rootID r"
    using assms(3) by (simp add: st findStakingRecordFromQueue_def findLoop_filter sameTriple_def)
  have fb: "findStakingRecordFromQueue k store rootID r \<longleftrightarrow> filter (sameTriple r) records \<noteq> []"
    using assms(1)
    by (auto simp: findStakingRecordFromQueue_def loadRecords_def findLoop_filter split: option.splits)
  have self: "sameTriple r r" by (simp add: sameTriple_def)
  have cnt: "length (filter (sameTriple r) (records @ [r])) = length (filter (sameTriple r) records) + 1"
    using self by simp
  show ?thesis
  proof (cases "findStakingRecordFromQueue k store rootID r")
    case True
    then have "length (filter (sameTriple r) records) \<ge> 1"
      using fb by (cases "filter (sameTriple r) records") auto
    with True ld fa cnt show ?thesis by simp
  next
    case False
    then have "filter (sameTriple r) records = []" using fb by simp
    with False ld fa cnt show ?thesis by simp
  qed
qed

text \<open>Enqueuing A into the empty store of root 1.\<close>

theorem enqueue_appends_witness:
  "loadRecords demoKeeper emptyStore (getStakingQueueKey demoKeeper 1) = Some [] \<and>
   MarshalRecords demoKeeper ([] @ [recordA]) = Some [1, 1, 0xA] \<and>
   UnmarshalRecords demoKeeper [1, 1, 0xA] = Some ([] @ [recordA]) \<and>
   loadRecords demoKeeper (AddStakingRecordToQueue demoKeeper emptyStore 1 recordA)
     (getStakingQueueKey demoKeeper 1) = Some ([] @ [recordA]) \<and>
   findStakingRecordFromQueue demoKeeper (AddStakingRecordToQueue demoKeeper emptyStore 1 recordA) 1 recordA \<and>
   (if findStakingRecordFromQueue demoKeeper emptyStore 1 recordA
    then length (filter (sameTriple recordA) ([] @ [recordA])) \<ge> 2
    else length (filter (sameTriple recordA) ([] @ [recordA])) = 1)"
proof -
  have h1: "loadRecords demoKeeper emptyStore (getStakingQueueKey demoKeeper 1) = Some []"
    by (simp add: loadRecords_def emptyStore_def)
  have h2: "MarshalRecords demoKeeper ([] @ [recordA]) = Some [1, 1, 0xA]"
    by (simp add: demoKeeper_def demoMarshalRecords_def fitsByte_def encodeRecord_def recordA_def)
  have h3: "UnmarshalRecords demoKeeper [1, 1, 0xA] = Some ([] @ [recordA])"
    by (simp add: demoKeeper_def recordA_def)
  from enqueue_appends [OF h1 h2 h3] h1 h2 h3 show ?thesis by blast
qed

text \<open>
  The claim as stated fails: after A is enqueued for root 1 the duplicate check finds
  it, and enqueuing A again stores a second copy.
\<close>

theorem enqueue_twice_counterexample:
  "findStakingRecordFromQueue demoKeeper
     (AddStakingRecordToQueue demoKeeper emptyStore 1 recordA) 1 recordA \<and>
   loadRecords demoKeeper
     (AddStakingRecordToQueue demoKeeper
        (AddStakingRecordToQueue demoKeeper emptyStore 1 recordA) 1 recordA)
     (getStakingQueueKey demoKeeper 1) = Some [recordA, recordA]"
  by (simp add: findStakingRecordFromQueue_def AddStakingRecordToQueue_def
      loadRecords_def getStakingQueueKey_def demoKeeper_def
      emptyStore_def demoMarshalRecords_def fitsByte_def encodeRecord_def recordA_def)

section \<open>The validator store: signer rotation\<close>

lemma key_simps:
  "GetValidatorKey a \<noteq> GetValidatorMapKey b"
  "GetValidatorMapKey b \<noteq> GetValidatorKey a"
  "GetValidatorKey a = GetValidatorKey a' \<longleftrightarrow> a = a'"
  by (simp_all add: GetValidatorKey_def GetValidatorMapKey_def ValidatorsKey_def ValidatorMapKey_def)

lemma BytesToAddress_id: "length a = AddressLength \<Longrightarrow> BytesToAddress a = a"
  by (simp add: BytesToAddress_def)

text \<open>\<^verbatim>\<open>AddValidator\<close> is the only writer of validator keys, and it writes a validator
  under its own signer.\<close>

lemma AddValidator_own_key:
  "MarshallValidator k v = Some bz \<Longrightarrow> UnmarshallValidator k bz = Some v \<Longrightarrow>
     GetValidatorInfo k (fst (AddValidator k store v)) (Signer v) = Inr v"
  by (simp add: AddValidator_def SetValidatorIDToSignerAddr_def GetValidatorInfo_def key_simps)

text \<open>
  Claim C8. If a validator is stored under \<open>prevSigner\<close> with power \<open>P\<close>, then after
  \<^verbatim>\<open>UpdateSigner(newSigner, newPubkey, prevSigner)\<close> with a different \<open>newSigner\<close> the record
  under \<open>prevSigner\<close> has power 0, the record under \<open>newSigner\<close> carries power \<open>P\<close> and the new
  public key, and the validator's ID resolves to \<open>newSigner\<close>. The stored record names
  \<open>prevSigner\<close> as its signer, as every record written by \<^verbatim>\<open>AddValidator\<close> does; addresses
  are 20 bytes; the codec marshals the two records written and reads them back.
\<close>

theorem UpdateSigner_rotates:
  assumes "GetValidatorInfo k store prevSigner = Inr validator"
    and "Signer validator = prevSigner"
    and "newSigner \<noteq> prevSigner"
    and "length newSigner = AddressLength"
    and "MarshallValidator k (validator\<lparr>Power := 0\<rparr>) = Some bz0"
    and "UnmarshallValidator k bz0 = Some (validator\<lparr>Power := 0\<rparr>)"
    and "MarshallValidator k (validator\<lparr>Signer := newSigner, PubKey := newPubkey\<rparr>) = Some bz1"
    and "UnmarshallValidator k bz1 = Some (validator\<lparr>Signer := newSigner, PubKey := newPubkey\<rparr>)"
  shows "snd (UpdateSigner k store newSigner newPubkey prevSigner) = None \<and>
         GetValidatorInfo k (fst (UpdateSigner k store newSigner newPubkey prevSigner)) prevSigner
           = Inr (validator\<lparr>Power := 0\<rparr>) \<and>
         GetValidatorInfo k (fst (UpdateSigner k store newSigner newPubkey prevSigner)) newSigner
           = Inr (validator\<lparr>Signer := newSigner, PubKey := newPubkey\<rparr>) \<and>
         Power (validator\<lparr>Signer := newSigner, PubKey := newPubkey\<rparr>) = Power validator \<and>
         GetSignerFromValidatorID k (fst (UpdateSigner k store newSigner newPubkey prevSigner)) (ID validator)
           = (newSigner, True) \<and>
         GetValidatorFromValID k (fst (UpdateSigner k store newSigner newPubkey prevSigner)) (ID validator)
           = Some (validator\<lparr>Signer := newSigner, PubKey := newPubkey\<rparr>)"
proof -
  have v2: "validator\<lparr>Power := 0\<rparr>\<lparr>Signer := newSigner, PubKey := newPubkey, Power := Power validator\<rparr>
            = validator\<lparr>Signer := newSigner, PubKey := newPubkey\<rparr>"
    by simp
  have st: "fst (UpdateSigner k store newSigner newPubkey prevSigner) =
        store(GetValidatorKey prevSigner \<mapsto> bz0,
              GetValidatorMapKey (ValidatorIDBytes k (ID validator)) \<mapsto> prevSigner,
              GetValidatorKey newSigner \<mapsto> bz1,
              GetValidatorMapKey (ValidatorIDBytes k (ID validator)) \<mapsto> newSigner)"
    and er: "snd (UpdateSigner k store newSigner newPubkey prevSigner) = None"
    using assms(1,2,5,7)
    by (simp_all add: UpdateSigner_def AddValidator_def SetValidatorIDToSignerAddr_def Let_def v2)
  have a: "GetValidatorInfo k (fst (UpdateSigner k store newSigner newPubkey prevSigner)) prevSigner
           = Inr (validator\<lparr>Power := 0\<rparr>)"
    using assms(3,6) by (simp add: st GetValidatorInfo_def key_simps)
  have b: "GetValidatorInfo k (fst (UpdateSigner k store newSigner newPubkey prevSigner)) newSigner
           = Inr (validator\<lparr>Signer := newSigner, PubKey := newPubkey\<rparr>)"
    using assms(3,8) by (simp add: st GetValidatorInfo_def key_simps)
  have c: "GetSignerFromValidatorID k (fst (UpdateSigner k store newSigner newPubkey prevSigner)) (ID validator)
           = (newSigner, True)"
    using assms(4) by (simp add: st GetSignerFromValidatorID_def BytesToAddress_id)
  have d: "GetValidatorFromValID k (fst (UpdateSigner k store newSigner newPubkey prevSigner)) (ID validator)
           = Some (validator\<lparr>Signer := newSigner, PubKey := newPubkey\<rparr>)"
    by (simp add: GetValidatorFromValID_def c b)
  from er a b c d show ?thesis by simp
qed

text \<open>Validator 7 with power 10, stored under the old signer, rotated to the new one.\<close>

theorem UpdateSigner_rotates_witness:
  "GetValidatorInfo demoKeeper validatorStore signerOld = Inr demoValidator \<and>
   Signer demoValidator = signerOld \<and> signerNew \<noteq> signerOld \<and>
   length signerNew = AddressLength \<and>
   GetValidatorInfo demoKeeper (fst (UpdateSigner demoKeeper validatorStore signerNew [6] signerOld)) signerOld
     = Inr (demoValidator\<lparr>Power := 0\<rparr>) \<and>
   GetValidatorInfo demoKeeper (fst (UpdateSigner demoKeeper validatorStore signerNew [6] signerOld)) signerNew
     = Inr (demoValidator\<lparr>Signer := signerNew, PubKey := [6]\<rparr>) \<and>
   Power (demoValidator\<lparr>Signer := signerNew, PubKey := [6]\<rparr>) = 10 \<and>
   GetSignerFromValidatorID demoKeeper
     (fst (UpdateSigner demoKeeper validatorStore signerNew [6] signerOld)) 7 = (signerNew, True)"
proof -
  have m0: "MarshallValidator demoKeeper demoValidator = Some ([7, 10, 5] @ signerOld)"
    by (simp add: demoKeeper_def demoMarshallValidator_def demoValidator_def signerOld_def)
  have h1: "GetValidatorInfo demoKeeper validatorStore signerOld = Inr demoValidator"
    by (simp add: validatorStore_def AddValidator_def m0 SetValidatorIDToSignerAddr_def
        GetValidatorInfo_def key_simps)
       (simp add: demoKeeper_def demoUnmarshallValidator_def demoValidator_def signerOld_def)
  have h2: "Signer demoValidator = signerOld" by (simp add: demoValidator_def)
  have h3: "signerNew \<noteq> signerOld" by (simp add: signerNew_def signerOld_def)
  have h4: "length signerNew = AddressLength" by (simp add: signerNew_def AddressLength_def)
  have h5: "MarshallValidator demoKeeper (demoValidator\<lparr>Power := 0\<rparr>) = Some ([7, 0, 5] @ signerOld)"
    by (simp add: demoKeeper_def demoMarshallValidator_def demoValidator_def signerOld_def)
  have h6: "UnmarshallValidator demoKeeper ([7, 0, 5] @ signerOld) = Some (demoValidator\<lparr>Power := 0\<rparr>)"
    by (simp add: demoKeeper_def demoUnmarshallValidator_def demoValidator_def signerOld_def)
  have h7: "MarshallValidator demoKeeper (demoValidator\<lparr>Signer := signerNew, PubKey := [6]\<rparr>)
              = Some ([7, 10, 6] @ signerNew)"
    by (simp add: demoKeeper_def demoMarshallValidator_def demoValidator_def signerNew_def)
  have h8: "UnmarshallValidator demoKeeper ([7, 10, 6] @ signerNew)
              = Some (demoValidator\<lparr>Signer := signerNew, PubKey := [6]\<rparr>)"
    by (simp add: demoKeeper_def demoUnmarshallValidator_def demoValidator_def signerNew_def)
  have id7: "ID demoValidator = 7" and p10: "Power demoValidator = 10"
    by (simp_all add: demoValidator_def)
  from UpdateSigner_rotates [OF h1 h2 h3 h4 h5 h6 h7 h8] h1 h2 h3 h4 id7 p10
  show ?thesis by simp
qed

end
